theory Spec2Isabelle
  imports Complex_Main "HOL-Library.Sublist"
begin

section \<open>The README generator component (src/components/ReadmeGenerator.tsx)\<close>

text \<open>
  The component is a React function component: a handful of state cells
  (\<open>useState\<close>), event handlers that update them, one \<open>fetch\<close> call and two export
  handlers. The model is explicit state passing: every handler is a function from the
  component state to the component state. What a handler does to the outside world
  (toast notifications, \<open>localStorage.setItem\<close>, \<open>fetch\<close>, \<open>console.error\<close>, the
  clipboard, the download) is appended, in program order, to a trace of events kept in
  the state, and the browser's \<open>localStorage\<close> is a map kept in the state as well.
  What the outside does in return (whether \<open>setItem\<close> throws, what the endpoint
  answers) is an input of the handler. On top of the handlers, the markup decides which
  of them a user can reach: a click runs a handler only if the page offers its control.

  Strings are \<open>string\<close>; a \<open>char\<close> stands for one UTF-16 code unit, of which the type
  holds the first 256.
\<close>

subsection \<open>JavaScript values\<close>

text \<open>
  The body of the endpoint's answer is whatever \<open>response.json()\<close> parses, and the
  handler reads it untyped (\<open>any\<close>), so the model carries JavaScript values. A number
  is an IEEE double read as the rational it denotes; the handlers only test numbers for
  truthiness. An object is the list of its own properties in insertion order; the
  parser leaves no two properties with the same key.
\<close>

datatype number = Finite rat | PosInfinity | NegInfinity | NaN

datatype jsvalue =
    JUndefined
  | JNull
  | JBool bool
  | JNum number
  | JStr string
  | JArr "jsvalue list"
  | JObj "(string \<times> jsvalue) list"

text \<open>\<open>ToBoolean\<close>: what \<open>!v\<close>, \<open>v || w\<close> and \<open>v ? a : b\<close> test.\<close>

fun truthy :: "jsvalue \<Rightarrow> bool" where
  "truthy JUndefined = False"
| "truthy JNull = False"
| "truthy (JBool b) = b"
| "truthy (JNum (Finite q)) = (q \<noteq> 0)"
| "truthy (JNum NaN) = False"
| "truthy (JNum PosInfinity) = True"
| "truthy (JNum NegInfinity) = True"
| "truthy (JStr s) = (s \<noteq> [])"
| "truthy (JArr xs) = True"
| "truthy (JObj kvs) = True"

datatype exn =
    TypeError           \<comment> \<open>reading a property of \<open>undefined\<close> or \<open>null\<close>\<close>
  | SyntaxError         \<comment> \<open>\<open>response.json()\<close> rejects: the body is not JSON\<close>
  | NetworkFailure      \<comment> \<open>the promise of \<open>fetch\<close> rejects\<close>
  | HttpError nat       \<comment> \<open>\<open>throw new Error(`HTTP error! status: ${response.status}`)\<close>\<close>
  | QuotaExceededError  \<comment> \<open>\<open>localStorage.setItem\<close> throws: the storage takes no more\<close>

text \<open>
  \<open>v.k\<close> for a property name \<open>k\<close> that no built-in prototype defines (the handler
  reads \<open>choices\<close>, \<open>message\<close> and \<open>content\<close>): a \<open>TypeError\<close> on \<open>undefined\<close> and
  \<open>null\<close>, the own property of an object, \<open>undefined\<close> otherwise.
\<close>

fun member :: "jsvalue \<Rightarrow> string \<Rightarrow> exn + jsvalue" where
  "member JUndefined k = Inl TypeError"
| "member JNull k = Inl TypeError"
| "member (JObj kvs) k = Inr (case map_of kvs k of None \<Rightarrow> JUndefined | Some v \<Rightarrow> v)"
| "member v k = Inr JUndefined"

text \<open>
  \<open>v[0]\<close>: a \<open>TypeError\<close> on \<open>undefined\<close> and \<open>null\<close>, the first element of an
  array, the first code unit of a string, the property \<open>"0"\<close> of an object, and
  \<open>undefined\<close> where there is none.
\<close>

fun index0 :: "jsvalue \<Rightarrow> exn + jsvalue" where
  "index0 JUndefined = Inl TypeError"
| "index0 JNull = Inl TypeError"
| "index0 (JArr xs) = Inr (case xs of [] \<Rightarrow> JUndefined | x # _ \<Rightarrow> x)"
| "index0 (JStr s) = Inr (case s of [] \<Rightarrow> JUndefined | c # _ \<Rightarrow> JStr [c])"
| "index0 (JObj kvs) = Inr (case map_of kvs ''0'' of None \<Rightarrow> JUndefined | Some v \<Rightarrow> v)"
| "index0 v = Inr JUndefined"

text \<open>\<open>v?.k\<close>: \<open>undefined\<close> on \<open>undefined\<close> and \<open>null\<close>, and \<open>v.k\<close> otherwise.\<close>

fun opt_member :: "jsvalue \<Rightarrow> string \<Rightarrow> jsvalue" where
  "opt_member JUndefined k = JUndefined"
| "opt_member JNull k = JUndefined"
| "opt_member (JObj kvs) k = (case map_of kvs k of None \<Rightarrow> JUndefined | Some v \<Rightarrow> v)"
| "opt_member v k = JUndefined"

subsection \<open>\<open>String.prototype.trim\<close>\<close>

text \<open>
  \<open>trim\<close> removes white space and line terminators from both ends. Below U+0100
  these are TAB, LF, VT, FF, CR, SPACE and NO-BREAK SPACE.
\<close>

definition is_white_space :: "char \<Rightarrow> bool" where
  "is_white_space c = (of_char c \<in> {9, 10, 11, 12, 13, 32, 160 :: nat})"

definition trim :: "string \<Rightarrow> string" where
  "trim s = rev (dropWhile is_white_space (rev (dropWhile is_white_space s)))"

subsection \<open>The component state\<close>

record ProjectData =
  name :: string
  description :: string
  techStack :: "string list"
  features :: "string list"
  installation :: string
  usage :: string
  license :: string
  author :: string
  repository :: string
  liveDemo :: string
  apiKey :: string

datatype variant = Default | Destructive

record request =
  url :: string
  http_method :: string   \<comment> \<open>the \<open>method\<close> of the init object\<close>
  headers :: "(string \<times> string) list"
  body :: jsvalue   \<comment> \<open>the argument of \<open>JSON.stringify\<close>\<close>

datatype tab = FormTab | PreviewTab

datatype event =
    Toast string string variant        \<comment> \<open>\<open>toast({title, description, variant})\<close>\<close>
  | SetItem string string              \<comment> \<open>\<open>localStorage.setItem(key, value)\<close>\<close>
  | Fetch request                      \<comment> \<open>\<open>fetch(url, init)\<close>\<close>
  | ConsoleError exn                   \<comment> \<open>\<open>console.error('Error generating README:', error)\<close>\<close>
  | Uncaught exn
      \<comment> \<open>the exception leaves the handler: the promise of the \<open>async\<close> function rejects\<close>
  | ClipboardWrite jsvalue             \<comment> \<open>\<open>navigator.clipboard.writeText(text)\<close>\<close>
  | Download string string "jsvalue list"
      \<comment> \<open>\<open>a.click()\<close> on an anchor with this \<open>download\<close> name, on a blob of this type and these parts\<close>

record state =
  projectData :: ProjectData
  generatedReadme :: jsvalue
  isGenerating :: bool
  currentTech :: string
  currentFeature :: string
  activeTab :: tab   \<comment> \<open>the cell of the \<open>Tabs\<close> component around the two panes\<close>
  localStorage :: "string \<rightharpoonup> string"
  trace :: "event list"

definition emit :: "event \<Rightarrow> state \<Rightarrow> state" where
  "emit e s = s\<lparr>trace := trace s @ [e]\<rparr>"

text \<open>
  The first render: the initial values of the \<open>useState\<close> cells;
  \<open>localStorage.getItem("groq-api-key") || ""\<close> restores the key, and
  \<open>defaultValue="form"\<close> selects the form tab.
\<close>

definition initial :: "(string \<rightharpoonup> string) \<Rightarrow> state" where
  "initial store =
     \<lparr> projectData =
         \<lparr> name = [], description = [], techStack = [], features = [],
           installation = [], usage = [], license = ''MIT'', author = [],
           repository = [], liveDemo = [],
           apiKey = (case store ''groq-api-key'' of None \<Rightarrow> [] | Some k \<Rightarrow> k) \<rparr>,
       generatedReadme = JStr [],
       isGenerating = False,
       currentTech = [],
       currentFeature = [],
       activeTab = FormTab,
       localStorage = store,
       trace = [] \<rparr>"

subsection \<open>The tech stack and feature lists\<close>

text \<open>
  \<open>addTechStack\<close>, \<open>addFeature\<close>: if the trimmed staging field is non-empty and the
  list does not include it, append it and clear the staging field.
\<close>

definition addTechStack :: "state \<Rightarrow> state" where
  "addTechStack s =
     (if trim (currentTech s) \<noteq> [] \<and> trim (currentTech s) \<notin> set (techStack (projectData s))
      then s\<lparr> projectData := (projectData s)
                  \<lparr> techStack := techStack (projectData s) @ [trim (currentTech s)] \<rparr>,
               currentTech := [] \<rparr>
      else s)"

definition addFeature :: "state \<Rightarrow> state" where
  "addFeature s =
     (if trim (currentFeature s) \<noteq> [] \<and> trim (currentFeature s) \<notin> set (features (projectData s))
      then s\<lparr> projectData := (projectData s)
                  \<lparr> features := features (projectData s) @ [trim (currentFeature s)] \<rparr>,
               currentFeature := [] \<rparr>
      else s)"

text \<open>\<open>removeTechStack\<close>, \<open>removeFeature\<close>: \<open>filter(t => t !== tech)\<close>.\<close>

definition removeTechStack :: "string \<Rightarrow> state \<Rightarrow> state" where
  "removeTechStack tech s =
     s\<lparr> projectData := (projectData s)
          \<lparr> techStack := filter (\<lambda>t. t \<noteq> tech) (techStack (projectData s)) \<rparr> \<rparr>"

definition removeFeature :: "string \<Rightarrow> state \<Rightarrow> state" where
  "removeFeature feature s =
     s\<lparr> projectData := (projectData s)
          \<lparr> features := filter (\<lambda>f. f \<noteq> feature) (features (projectData s)) \<rparr> \<rparr>"

subsection \<open>The generation request\<close>

text \<open>\<open>Array.prototype.join\<close> on a list of strings.\<close>

fun join :: "string \<Rightarrow> string list \<Rightarrow> string" where
  "join sep [] = []"
| "join sep [x] = x"
| "join sep (x # y # ys) = x @ sep @ join sep (y # ys)"

text \<open>The template literal of the prompt, line by line.\<close>

definition prompt :: "ProjectData \<Rightarrow> string" where
  "prompt pd = join [CHR 0x0A]
     [ ''Create a comprehensive, professional README.md file for a project with the following details:'',
       [],
       ''Project Name: '' @ name pd,
       ''Description: '' @ description pd,
       ''Tech Stack: '' @ join '', '' (techStack pd),
       ''Features: '' @ join '', '' (features pd),
       ''Installation Instructions: '' @ installation pd,
       ''Usage Instructions: '' @ usage pd,
       ''License: '' @ license pd,
       ''Author: '' @ author pd,
       ''Repository: '' @ repository pd,
       ''Live Demo: '' @ liveDemo pd,
       [],
       ''Please create a modern, well-structured README.md with:'',
       ''- Attractive header with project title and description'',
       ''- Badges for tech stack and license'',
       ''- Table of contents'',
       ''- Features section with emojis'',
       ''- Installation and usage instructions'',
       ''- Contributing guidelines'',
       ''- License information'',
       ''- Contact information'',
       [],
       ''Make it visually appealing with proper markdown formatting, emojis, and clear sections. Include placeholder images where appropriate.'' ]"

definition system_instruction :: string where
  "system_instruction = ''You are a professional technical writer specializing in creating comprehensive README.md files for GitHub repositories. Create detailed, well-formatted README files with proper markdown syntax.''"

definition completion_request :: "ProjectData \<Rightarrow> request" where
  "completion_request pd =
     \<lparr> url = ''https://api.groq.com/openai/v1/chat/completions'',
       http_method = ''POST'',
       headers = [ (''Authorization'', ''Bearer '' @ apiKey pd),
                   (''Content-Type'', ''application/json'') ],
       body = JObj
         [ (''model'', JStr ''openai/gpt-oss-120b''),
           (''messages'', JArr
              [ JObj [(''role'', JStr ''system''), (''content'', JStr system_instruction)],
                JObj [(''role'', JStr ''user''), (''content'', JStr (prompt pd))] ]),
           (''temperature'', JNum (Finite (7 / 10))),
           (''max_tokens'', JNum (Finite 2000)) ] \<rparr>"

subsection \<open>The answer of the endpoint\<close>

text \<open>
  What the network step yields is an input of the model: the promise of \<open>fetch\<close>
  rejects, or it resolves to a response with a status and a body; \<open>json\<close> is what
  \<open>response.json()\<close> resolves to, \<open>None\<close> when it rejects. \<open>response.ok\<close> is true for
  the statuses 200 to 299.
\<close>

record response =
  status :: nat
  json :: "jsvalue option"

datatype fetch_result = Rejected | Resolved response

definition ok :: "response \<Rightarrow> bool" where
  "ok r = (200 \<le> status r \<and> status r \<le> 299)"

text \<open>
  \<open>data.choices[0]?.message?.content || 'Failed to generate README'\<close>: the two plain
  reads may throw, the two optional ones do not.
\<close>

definition fallback :: string where
  "fallback = ''Failed to generate README''"

definition extract_readme :: "jsvalue \<Rightarrow> exn + jsvalue" where
  "extract_readme data =
     (case member data ''choices'' of
        Inl e \<Rightarrow> Inl e
      | Inr choices \<Rightarrow>
          (case index0 choices of
             Inl e \<Rightarrow> Inl e
           | Inr choice \<Rightarrow>
               (let content = opt_member (opt_member choice ''message'') ''content''
                in Inr (if truthy content then content else JStr fallback))))"

text \<open>
  The \<open>try\<close> block up to the value handed to \<open>setGeneratedReadme\<close>: \<open>Inl\<close> is the
  exception that reaches the \<open>catch\<close> clause.
\<close>

definition try_block :: "fetch_result \<Rightarrow> exn + jsvalue" where
  "try_block fr =
     (case fr of
        Rejected \<Rightarrow> Inl NetworkFailure
      | Resolved r \<Rightarrow>
          if \<not> ok r then Inl (HttpError (status r))
          else (case json r of
                  None \<Rightarrow> Inl SyntaxError
                | Some data \<Rightarrow> extract_readme data))"

subsection \<open>\<open>generateReadme\<close>\<close>

definition api_key_required :: event where
  "api_key_required =
     Toast ''API Key Required'' ''Please enter your Groq API key to generate README'' Destructive"

definition missing_information :: event where
  "missing_information =
     Toast ''Missing Information'' ''Please fill in at least project name and description'' Destructive"

definition readme_generated :: event where
  "readme_generated =
     Toast ''README Generated!'' ''Your professional README.md has been created successfully'' Default"

definition generation_failed :: event where
  "generation_failed =
     Toast ''Generation Failed''
       ''Failed to generate README. Please check your API key and try again.'' Destructive"

text \<open>
  What the outside does during one invocation: \<open>localStorage.setItem\<close> throws, or it
  returns and the endpoint answers the request.
\<close>

datatype environment = SetItemThrows | SetItemReturns fetch_result

text \<open>
  One invocation, run to its end. The two guards return early. Past them the handler
  sets the flag and calls \<open>localStorage.setItem\<close>; both statements stand before the
  \<open>try\<close> block, so if \<open>setItem\<close> throws, the exception leaves the handler at once:
  nothing is stored, nothing is requested, and neither the \<open>catch\<close> nor the \<open>finally\<close>
  clause runs. If it returns, the handler calls \<open>fetch\<close>, and then either stores the
  text and announces it or, in the \<open>catch\<close> clause, logs the exception and announces
  the failure; the \<open>finally\<close> clause clears the flag.
\<close>

definition generateReadme :: "environment \<Rightarrow> state \<Rightarrow> state" where
  "generateReadme env s =
     (let pd = projectData s in
      if apiKey pd = [] then emit api_key_required s
      else if name pd = [] \<or> description pd = [] then emit missing_information s
      else
        let s1 = s\<lparr>isGenerating := True\<rparr>;
            s2 = emit (SetItem ''groq-api-key'' (apiKey pd)) s1
        in case env of
             SetItemThrows \<Rightarrow> emit (Uncaught QuotaExceededError) s2
           | SetItemReturns fr \<Rightarrow>
               let s3 = emit (Fetch (completion_request pd))
                          (s2\<lparr>localStorage := (localStorage s2)(''groq-api-key'' \<mapsto> apiKey pd)\<rparr>);
                   s4 = (case try_block fr of
                           Inr readme \<Rightarrow> emit readme_generated (s3\<lparr>generatedReadme := readme\<rparr>)
                         | Inl error \<Rightarrow> emit generation_failed (emit (ConsoleError error) s3))
               in s4\<lparr>isGenerating := False\<rparr>)"

subsection \<open>The export handlers\<close>

definition copyToClipboard :: "state \<Rightarrow> state" where
  "copyToClipboard s =
     emit (Toast ''Copied!'' ''README content copied to clipboard'' Default)
       (emit (ClipboardWrite (generatedReadme s)) s)"

definition downloadReadme :: "state \<Rightarrow> state" where
  "downloadReadme s =
     emit (Toast ''Downloaded!'' ''README.md file has been downloaded'' Default)
       (emit (Download ''README.md'' ''text/markdown'' [generatedReadme s]) s)"

subsection \<open>The page: which handler a user can reach\<close>

text \<open>
  What React does with \<open>{generatedReadme}\<close> as a child of the \<open>pre\<close> element: strings
  and numbers are text, booleans, \<open>null\<close> and \<open>undefined\<close> are nothing, an array is
  its elements, and a plain object is an error. An error while rendering unmounts the
  page.
\<close>

fun renderable :: "jsvalue \<Rightarrow> bool" where
  "renderable (JObj kvs) = False"
| "renderable (JArr xs) = list_all renderable xs"
| "renderable v = True"

text \<open>
  The preview pane is rendered while its tab is selected; it shows the text, in the
  branch \<open>generatedReadme ? ... : ...\<close> taken when the text is truthy.
\<close>

definition render_throws :: "state \<Rightarrow> bool" where
  "render_throws s \<longleftrightarrow>
     activeTab s = PreviewTab \<and> truthy (generatedReadme s) \<and> \<not> renderable (generatedReadme s)"

text \<open>
  The Generate button carries \<open>disabled={isGenerating}\<close>. The Copy and Download
  buttons stand in the truthy branch of the preview pane and nowhere else.
\<close>

definition generate_button_disabled :: "state \<Rightarrow> bool" where
  "generate_button_disabled s = isGenerating s"

definition export_buttons_rendered :: "state \<Rightarrow> bool" where
  "export_buttons_rendered s \<longleftrightarrow>
     activeTab s = PreviewTab \<and> truthy (generatedReadme s) \<and> renderable (generatedReadme s)"

definition licenses :: "string list" where
  "licenses = [''MIT'', ''Apache-2.0'', ''GPL-3.0'', ''BSD-3-Clause'', ''ISC'', ''LGPL-2.1'',
               ''MPL-2.0'', ''AGPL-3.0'', ''Unlicense'', ''Proprietary'']"

datatype form_field =
    ApiKeyField | NameField | DescriptionField | AuthorField | LicenseField
  | RepositoryField | LiveDemoField | InstallationField | UsageField

text \<open>The \<open>onChange\<close> handlers of the form: \<open>setProjectData(prev => ({...prev, f: v}))\<close>.\<close>

fun set_field :: "form_field \<Rightarrow> string \<Rightarrow> ProjectData \<Rightarrow> ProjectData" where
  "set_field ApiKeyField v pd = pd\<lparr>apiKey := v\<rparr>"
| "set_field NameField v pd = pd\<lparr>name := v\<rparr>"
| "set_field DescriptionField v pd = pd\<lparr>description := v\<rparr>"
| "set_field AuthorField v pd = pd\<lparr>author := v\<rparr>"
| "set_field LicenseField v pd = pd\<lparr>license := v\<rparr>"
| "set_field RepositoryField v pd = pd\<lparr>repository := v\<rparr>"
| "set_field LiveDemoField v pd = pd\<lparr>liveDemo := v\<rparr>"
| "set_field InstallationField v pd = pd\<lparr>installation := v\<rparr>"
| "set_field UsageField v pd = pd\<lparr>usage := v\<rparr>"

text \<open>
  What a user can do to the page. \<open>ClickGenerate\<close> carries what the outside does
  during the invocation it starts; the invocation is one step.
\<close>

datatype action =
    Edit form_field string     \<comment> \<open>type into a field of the form, or select a license\<close>
  | TypeTech string            \<comment> \<open>\<open>setCurrentTech(e.target.value)\<close>\<close>
  | TypeFeature string         \<comment> \<open>\<open>setCurrentFeature(e.target.value)\<close>\<close>
  | ClickAddTech               \<comment> \<open>the Add button, or Enter in the staging field\<close>
  | ClickAddFeature
  | ClickRemoveTech string     \<comment> \<open>the badge of an entry\<close>
  | ClickRemoveFeature string
  | ClickGenerate environment
  | ClickCopy
  | ClickDownload
  | SelectTab tab

text \<open>
  Whether the page offers the control: nothing on an unmounted page; the tab triggers
  always; the controls of the form while the form tab is selected, a badge for each
  entry of a list, the license among the listed ones, the Generate button unless
  disabled; the two export buttons where they are rendered.
\<close>

fun offered :: "state \<Rightarrow> action \<Rightarrow> bool" where
  "offered s (Edit f v) \<longleftrightarrow>
     \<not> render_throws s \<and> activeTab s = FormTab \<and> (f = LicenseField \<longrightarrow> v \<in> set licenses)"
| "offered s (TypeTech v) \<longleftrightarrow> \<not> render_throws s \<and> activeTab s = FormTab"
| "offered s (TypeFeature v) \<longleftrightarrow> \<not> render_throws s \<and> activeTab s = FormTab"
| "offered s ClickAddTech \<longleftrightarrow> \<not> render_throws s \<and> activeTab s = FormTab"
| "offered s ClickAddFeature \<longleftrightarrow> \<not> render_throws s \<and> activeTab s = FormTab"
| "offered s (ClickRemoveTech t) \<longleftrightarrow>
     \<not> render_throws s \<and> activeTab s = FormTab \<and> t \<in> set (techStack (projectData s))"
| "offered s (ClickRemoveFeature f) \<longleftrightarrow>
     \<not> render_throws s \<and> activeTab s = FormTab \<and> f \<in> set (features (projectData s))"
| "offered s (ClickGenerate env) \<longleftrightarrow>
     \<not> render_throws s \<and> activeTab s = FormTab \<and> \<not> generate_button_disabled s"
| "offered s ClickCopy \<longleftrightarrow> export_buttons_rendered s"
| "offered s ClickDownload \<longleftrightarrow> export_buttons_rendered s"
| "offered s (SelectTab t) \<longleftrightarrow> \<not> render_throws s"

text \<open>The handler the markup wires to the control.\<close>

fun handler :: "action \<Rightarrow> state \<Rightarrow> state" where
  "handler (Edit f v) s = s\<lparr>projectData := set_field f v (projectData s)\<rparr>"
| "handler (TypeTech v) s = s\<lparr>currentTech := v\<rparr>"
| "handler (TypeFeature v) s = s\<lparr>currentFeature := v\<rparr>"
| "handler ClickAddTech s = addTechStack s"
| "handler ClickAddFeature s = addFeature s"
| "handler (ClickRemoveTech t) s = removeTechStack t s"
| "handler (ClickRemoveFeature f) s = removeFeature f s"
| "handler (ClickGenerate env) s = generateReadme env s"
| "handler ClickCopy s = copyToClipboard s"
| "handler ClickDownload s = downloadReadme s"
| "handler (SelectTab t) s = s\<lparr>activeTab := t\<rparr>"

text \<open>
  One action of the user: the handler runs if the page offers the control, and
  nothing happens otherwise. A session is a list of actions on the first render.
\<close>

definition click :: "action \<Rightarrow> state \<Rightarrow> state" where
  "click a s = (if offered s a then handler a s else s)"

fun run :: "action list \<Rightarrow> state \<Rightarrow> state" where
  "run [] s = s"
| "run (a # as) s = run as (click a s)"

subsection \<open>Reading the trace, and two concrete sessions\<close>

text \<open>The events a handler appended: the trace of the state after it, past the old one.\<close>

definition new_events :: "state \<Rightarrow> state \<Rightarrow> event list" where
  "new_events s s' = drop (length (trace s)) (trace s')"

fun is_fetch :: "event \<Rightarrow> bool" where
  "is_fetch (Fetch r) = True"
| "is_fetch e = False"

fun is_set_item :: "event \<Rightarrow> bool" where
  "is_set_item (SetItem k v) = True"
| "is_set_item e = False"

fun is_download :: "event \<Rightarrow> bool" where
  "is_download (Download f t parts) = True"
| "is_download e = False"

text \<open>
  A session that found a key in the store and has typed a name only, and the
  scenario of the specification: Widget, with key \<open>k1\<close>.
\<close>

definition keyed :: state where
  "keyed = (initial [''groq-api-key'' \<mapsto> ''k1''])
     \<lparr> projectData := (projectData (initial [''groq-api-key'' \<mapsto> ''k1'']))
         \<lparr> name := ''Widget'' \<rparr> \<rparr>"

definition widget :: state where
  "widget = (initial Map.empty)
     \<lparr> projectData := (projectData (initial Map.empty))
         \<lparr> name := ''Widget'', description := ''A widget.'', techStack := [''Go''],
           features := [''Fast''], apiKey := ''k1'' \<rparr> \<rparr>"

definition completion :: "jsvalue \<Rightarrow> fetch_result" where
  "completion content =
     Resolved \<lparr> status = 200,
                json = Some (JObj [(''choices'',
                         JArr [JObj [(''message'', JObj [(''content'', content)])]])]) \<rparr>"

text \<open>The session that fills the form to the Widget scenario.\<close>

definition widget_session :: "action list" where
  "widget_session =
     [ Edit ApiKeyField ''k1'', Edit NameField ''Widget'', Edit DescriptionField ''A widget.'',
       TypeTech ''Go'', ClickAddTech, TypeFeature ''Fast'', ClickAddFeature ]"

text \<open>
  What \<open>choices[0]?.message?.content\<close> reads off an array of choices: \<open>undefined\<close>
  when there is no first choice, or it has no message, or the message has no content.
\<close>

definition first_choice_content :: "jsvalue list \<Rightarrow> jsvalue" where
  "first_choice_content cs =
     (case cs of [] \<Rightarrow> JUndefined
      | c # _ \<Rightarrow> opt_member (opt_member c ''message'') ''content'')"

text \<open>The shape the two lists are meant to keep: no entry twice, no empty entry.\<close>

definition entries_ok :: "string list \<Rightarrow> bool" where
  "entries_ok xs \<longleftrightarrow> distinct xs \<and> [] \<notin> set xs"

text \<open>
  What every session keeps: the two lists in shape and, as long as no generation has
  succeeded, the generated text empty and no download made.
\<close>

definition page_ok :: "state \<Rightarrow> bool" where
  "page_ok s \<longleftrightarrow>
     entries_ok (techStack (projectData s)) \<and> entries_ok (features (projectData s))
     \<and> (readme_generated \<notin> set (trace s) \<longrightarrow>
           generatedReadme s = JStr [] \<and> \<not> list_ex is_download (trace s))"

section \<open>Properties\<close>

subsection \<open>The paths of \<open>generateReadme\<close>\<close>

lemma emit_simps [simp]:
  "trace (emit e s) = trace s @ [e]"
  "projectData (emit e s) = projectData s"
  "generatedReadme (emit e s) = generatedReadme s"
  "isGenerating (emit e s) = isGenerating s"
  "currentTech (emit e s) = currentTech s"
  "currentFeature (emit e s) = currentFeature s"
  "activeTab (emit e s) = activeTab s"
  "localStorage (emit e s) = localStorage s"
  by (simp_all add: emit_def)

lemma generateReadme_no_key:
  "apiKey (projectData s) = [] \<Longrightarrow> generateReadme env s = emit api_key_required s"
  by (simp add: generateReadme_def)

lemma generateReadme_incomplete:
  "apiKey (projectData s) \<noteq> [] \<Longrightarrow>
   name (projectData s) = [] \<or> description (projectData s) = [] \<Longrightarrow>
   generateReadme env s = emit missing_information s"
  by (simp add: generateReadme_def)

lemma generateReadme_resolved:
  assumes "apiKey (projectData s) \<noteq> []" "name (projectData s) \<noteq> []"
    and "description (projectData s) \<noteq> []"
    and "try_block fr = Inr readme"
  shows "generateReadme (SetItemReturns fr) s =
     s\<lparr> generatedReadme := readme, isGenerating := False,
        localStorage := (localStorage s)(''groq-api-key'' \<mapsto> apiKey (projectData s)),
        trace := trace s @ [SetItem ''groq-api-key'' (apiKey (projectData s)),
                            Fetch (completion_request (projectData s)), readme_generated] \<rparr>"
  using assms by (simp add: generateReadme_def emit_def Let_def)

lemma generateReadme_caught:
  assumes "apiKey (projectData s) \<noteq> []" "name (projectData s) \<noteq> []"
    and "description (projectData s) \<noteq> []"
    and "try_block fr = Inl error"
  shows "generateReadme (SetItemReturns fr) s =
     s\<lparr> isGenerating := False,
        localStorage := (localStorage s)(''groq-api-key'' \<mapsto> apiKey (projectData s)),
        trace := trace s @ [SetItem ''groq-api-key'' (apiKey (projectData s)),
                            Fetch (completion_request (projectData s)),
                            ConsoleError error, generation_failed] \<rparr>"
  using assms by (simp add: generateReadme_def emit_def Let_def)

lemma generateReadme_thrown:
  assumes "apiKey (projectData s) \<noteq> []" "name (projectData s) \<noteq> []"
    and "description (projectData s) \<noteq> []"
  shows "generateReadme SetItemThrows s =
     s\<lparr> isGenerating := True,
        trace := trace s @ [SetItem ''groq-api-key'' (apiKey (projectData s)),
                            Uncaught QuotaExceededError] \<rparr>"
  using assms by (simp add: generateReadme_def emit_def Let_def)

subsection \<open>Sessions\<close>

lemma handler_frame [simp]:
  "trace (addTechStack s) = trace s" "generatedReadme (addTechStack s) = generatedReadme s"
  "isGenerating (addTechStack s) = isGenerating s"
  "features (projectData (addTechStack s)) = features (projectData s)"
  "trace (addFeature s) = trace s" "generatedReadme (addFeature s) = generatedReadme s"
  "isGenerating (addFeature s) = isGenerating s"
  "techStack (projectData (addFeature s)) = techStack (projectData s)"
  "trace (removeTechStack t s) = trace s"
  "generatedReadme (removeTechStack t s) = generatedReadme s"
  "isGenerating (removeTechStack t s) = isGenerating s"
  "features (projectData (removeTechStack t s)) = features (projectData s)"
  "trace (removeFeature t s) = trace s"
  "generatedReadme (removeFeature t s) = generatedReadme s"
  "isGenerating (removeFeature t s) = isGenerating s"
  "techStack (projectData (removeFeature t s)) = techStack (projectData s)"
  "projectData (copyToClipboard s) = projectData s"
  "generatedReadme (copyToClipboard s) = generatedReadme s"
  "isGenerating (copyToClipboard s) = isGenerating s"
  "projectData (downloadReadme s) = projectData s"
  "generatedReadme (downloadReadme s) = generatedReadme s"
  "isGenerating (downloadReadme s) = isGenerating s"
  "techStack (set_field f v pd) = techStack pd"
  "features (set_field f v pd) = features pd"
  by (simp_all add: addTechStack_def addFeature_def removeTechStack_def removeFeature_def
      copyToClipboard_def downloadReadme_def, (cases f; simp)+)

lemma generateReadme_projectData [simp]:
  "projectData (generateReadme env s) = projectData s"
  by (simp add: generateReadme_def Let_def split: environment.splits sum.splits)

lemma generateReadme_effect:
  "\<exists>es. trace (generateReadme env s) = trace s @ es \<and> \<not> list_ex is_download es
      \<and> (generatedReadme (generateReadme env s) = generatedReadme s \<or> readme_generated \<in> set es)"
  by (simp add: generateReadme_def Let_def api_key_required_def missing_information_def
      generation_failed_def readme_generated_def split: environment.splits sum.splits)

lemma flag_stays_set_click: "isGenerating s \<Longrightarrow> isGenerating (click a s)"
  by (cases a) (simp_all add: click_def generate_button_disabled_def)

lemma flag_stays_set: "isGenerating s \<Longrightarrow> isGenerating (run acts s)"
  by (induction acts arbitrary: s) (simp_all add: flag_stays_set_click)

lemma run_append: "run (as @ bs) s = run bs (run as s)"
  by (induction as arbitrary: s) simp_all

lemma widget_reachable: "run widget_session (initial Map.empty) = widget"
  by (simp add: widget_session_def widget_def initial_def click_def render_throws_def
      addTechStack_def addFeature_def trim_def is_white_space_def)

lemma after_widget: "run (widget_session @ acts) (initial Map.empty) = run acts widget"
  by (simp only: run_append widget_reachable)

subsection \<open>The guards\<close>

text \<open>
  C1. In every state whose \<open>apiKey\<close> is the empty string, \<open>generateReadme\<close> does one
  thing: it shows the destructive toast "API Key Required" (the missing-credential
  failure). It calls neither \<open>fetch\<close> nor \<open>localStorage.setItem\<close>, the store, the
  project data and the generated text are what they were, and so is every other cell
  of the state. This holds whatever the outside would have done.
\<close>

theorem generate_missing_credential:
  assumes "apiKey (projectData s) = []"
  shows "new_events s (generateReadme env s) = [api_key_required]
       \<and> \<not> list_ex is_fetch (new_events s (generateReadme env s))
       \<and> \<not> list_ex is_set_item (new_events s (generateReadme env s))
       \<and> localStorage (generateReadme env s) = localStorage s
       \<and> projectData (generateReadme env s) = projectData s
       \<and> generatedReadme (generateReadme env s) = generatedReadme s
       \<and> generateReadme env s = s\<lparr>trace := trace s @ [api_key_required]\<rparr>"
  using assms
  by (simp add: generateReadme_no_key new_events_def api_key_required_def emit_def)

theorem generate_missing_credential_witness:
  "apiKey (projectData (initial Map.empty)) = []
   \<and> trace (generateReadme (SetItemReturns Rejected) (initial Map.empty)) = [api_key_required]
   \<and> generatedReadme (generateReadme (SetItemReturns Rejected) (initial Map.empty)) = JStr []
   \<and> localStorage (generateReadme (SetItemReturns Rejected) (initial Map.empty)) ''groq-api-key'' = None"
  using generate_missing_credential [where s = "initial Map.empty" and env = "SetItemReturns Rejected"]
  by (simp add: initial_def)

text \<open>
  C2. In every state whose \<open>apiKey\<close> is non-empty and whose \<open>name\<close> or \<open>description\<close>
  is the empty string, \<open>generateReadme\<close> shows the destructive toast
  "Missing Information" (the incomplete-project failure) and does nothing else: no
  \<open>fetch\<close>, no \<open>localStorage.setItem\<close>, the store and the generated text unchanged.
\<close>

theorem generate_incomplete_project:
  assumes "apiKey (projectData s) \<noteq> []"
    and "name (projectData s) = [] \<or> description (projectData s) = []"
  shows "new_events s (generateReadme env s) = [missing_information]
       \<and> \<not> list_ex is_fetch (new_events s (generateReadme env s))
       \<and> \<not> list_ex is_set_item (new_events s (generateReadme env s))
       \<and> localStorage (generateReadme env s) = localStorage s
       \<and> generatedReadme (generateReadme env s) = generatedReadme s
       \<and> generateReadme env s = s\<lparr>trace := trace s @ [missing_information]\<rparr>"
  using assms
  by (simp add: generateReadme_incomplete new_events_def missing_information_def emit_def)

theorem generate_incomplete_project_witness:
  "apiKey (projectData keyed) \<noteq> []
   \<and> (name (projectData keyed) = [] \<or> description (projectData keyed) = [])
   \<and> trace (generateReadme (SetItemReturns Rejected) keyed) = [missing_information]
   \<and> generatedReadme (generateReadme (SetItemReturns Rejected) keyed) = JStr []
   \<and> localStorage (generateReadme (SetItemReturns Rejected) keyed) ''groq-api-key'' = Some ''k1''"
  using generate_incomplete_project [where s = keyed and env = "SetItemReturns Rejected"]
  by (simp add: keyed_def initial_def)

subsection \<open>Past the guards\<close>

text \<open>
  C3. In every state whose \<open>apiKey\<close>, \<open>name\<close> and \<open>description\<close> are all non-empty,
  the first thing \<open>generateReadme\<close> does to the outside is
  \<open>localStorage.setItem\<close> of the current \<open>apiKey\<close> under the fixed key, whatever the
  outside does. In every run in which the request is issued (\<open>setItem\<close> has
  returned), and for every answer of the endpoint (success or failure), the first two
  things are that write and then the one call of \<open>fetch\<close>: the write comes before
  the request. The store afterwards is the old store with the fixed key overwritten
  by the current \<open>apiKey\<close>, verbatim.
\<close>

theorem generate_persists_key_first:
  assumes "apiKey (projectData s) \<noteq> []" "name (projectData s) \<noteq> []"
    and "description (projectData s) \<noteq> []"
  shows "take 2 (new_events s (generateReadme (SetItemReturns fr) s)) =
           [SetItem ''groq-api-key'' (apiKey (projectData s)),
            Fetch (completion_request (projectData s))]
       \<and> \<not> list_ex is_fetch (take 1 (new_events s (generateReadme (SetItemReturns fr) s)))
       \<and> length (filter is_fetch (new_events s (generateReadme (SetItemReturns fr) s))) = 1
       \<and> localStorage (generateReadme (SetItemReturns fr) s) =
           (localStorage s)(''groq-api-key'' \<mapsto> apiKey (projectData s))
       \<and> localStorage (generateReadme (SetItemReturns fr) s) ''groq-api-key'' = Some (apiKey (projectData s))
       \<and> take 1 (new_events s (generateReadme env s)) =
           [SetItem ''groq-api-key'' (apiKey (projectData s))]
       \<and> \<not> list_ex is_fetch (take 1 (new_events s (generateReadme env s)))"
proof -
  have returns: "take 2 (new_events s (generateReadme (SetItemReturns fr) s)) =
           [SetItem ''groq-api-key'' (apiKey (projectData s)),
            Fetch (completion_request (projectData s))]
       \<and> \<not> list_ex is_fetch (take 1 (new_events s (generateReadme (SetItemReturns fr) s)))
       \<and> length (filter is_fetch (new_events s (generateReadme (SetItemReturns fr) s))) = 1
       \<and> localStorage (generateReadme (SetItemReturns fr) s) =
           (localStorage s)(''groq-api-key'' \<mapsto> apiKey (projectData s))
       \<and> localStorage (generateReadme (SetItemReturns fr) s) ''groq-api-key''
           = Some (apiKey (projectData s))" for fr
  proof (cases "try_block fr")
    case (Inl error)
    from generateReadme_caught [OF assms Inl] show ?thesis
      by (simp add: new_events_def generation_failed_def)
  next
    case (Inr readme)
    from generateReadme_resolved [OF assms Inr] show ?thesis
      by (simp add: new_events_def readme_generated_def)
  qed
  have first: "take 1 (new_events s (generateReadme env s)) =
           [SetItem ''groq-api-key'' (apiKey (projectData s))]"
  proof (cases env)
    case SetItemThrows
    with generateReadme_thrown [OF assms] show ?thesis
      by (simp add: new_events_def)
  next
    case (SetItemReturns fr')
    from returns [of fr'] have two:
      "take 2 (new_events s (generateReadme (SetItemReturns fr') s)) =
         [SetItem ''groq-api-key'' (apiKey (projectData s)),
          Fetch (completion_request (projectData s))]"
      by blast
    have "take 1 (new_events s (generateReadme (SetItemReturns fr') s)) =
            take 1 (take 2 (new_events s (generateReadme (SetItemReturns fr') s)))"
      by simp
    also have "\<dots> = [SetItem ''groq-api-key'' (apiKey (projectData s))]"
      unfolding two by simp
    finally show ?thesis
      using SetItemReturns by simp
  qed
  from returns [of fr] first show ?thesis
    by simp
qed

theorem generate_persists_key_first_witness:
  "apiKey (projectData widget) \<noteq> [] \<and> name (projectData widget) \<noteq> []
   \<and> description (projectData widget) \<noteq> []
   \<and> localStorage (widget\<lparr>localStorage := [''groq-api-key'' \<mapsto> ''k0'']\<rparr>) ''groq-api-key''
        = Some ''k0''
   \<and> take 2 (trace (generateReadme (SetItemReturns Rejected)
        (widget\<lparr>localStorage := [''groq-api-key'' \<mapsto> ''k0'']\<rparr>))) =
        [SetItem ''groq-api-key'' ''k1'', Fetch (completion_request (projectData widget))]
   \<and> localStorage (generateReadme (SetItemReturns Rejected)
        (widget\<lparr>localStorage := [''groq-api-key'' \<mapsto> ''k0'']\<rparr>)) ''groq-api-key'' = Some ''k1''
   \<and> take 2 (trace (generateReadme (SetItemReturns (completion (JStr ''# Widget''))) widget)) =
        [SetItem ''groq-api-key'' ''k1'', Fetch (completion_request (projectData widget))]
   \<and> localStorage (generateReadme (SetItemReturns (completion (JStr ''# Widget''))) widget) ''groq-api-key''
        = Some ''k1''
   \<and> take 1 (trace (generateReadme SetItemThrows widget)) = [SetItem ''groq-api-key'' ''k1'']"
  using generate_persists_key_first
          [where s = "widget\<lparr>localStorage := [''groq-api-key'' \<mapsto> ''k0'']\<rparr>"
             and fr = Rejected and env = SetItemThrows]
    generate_persists_key_first
          [where s = widget and fr = "completion (JStr ''# Widget'')" and env = SetItemThrows]
  by (simp add: widget_def initial_def new_events_def)

text \<open>
  C5. Past the guards and the write of the key, when the promise of \<open>fetch\<close> rejects or the response has a
  status outside 200..299, the generated text is exactly what it was before the call,
  whatever it was. The handler logs the exception and shows the destructive toast
  "Generation Failed" (the failed outcome), never the success toast, and the
  generating flag ends cleared.
\<close>

theorem generate_failure_keeps_result:
  assumes "apiKey (projectData s) \<noteq> []" "name (projectData s) \<noteq> []"
    and "description (projectData s) \<noteq> []"
    and "fr = Rejected \<or> (\<exists>r. fr = Resolved r \<and> \<not> ok r)"
  shows "generatedReadme (generateReadme (SetItemReturns fr) s) = generatedReadme s
       \<and> new_events s (generateReadme (SetItemReturns fr) s) =
             [SetItem ''groq-api-key'' (apiKey (projectData s)),
              Fetch (completion_request (projectData s)),
              ConsoleError (case fr of Rejected \<Rightarrow> NetworkFailure
                            | Resolved r \<Rightarrow> HttpError (status r)),
              generation_failed]
       \<and> readme_generated \<notin> set (new_events s (generateReadme (SetItemReturns fr) s))
       \<and> \<not> isGenerating (generateReadme (SetItemReturns fr) s)"
proof -
  from assms(4) have "try_block fr =
      Inl (case fr of Rejected \<Rightarrow> NetworkFailure | Resolved r \<Rightarrow> HttpError (status r))"
    by (auto simp: try_block_def)
  from generateReadme_caught [OF assms(1-3) this] show ?thesis
    by (simp add: new_events_def generation_failed_def readme_generated_def)
qed

theorem generate_failure_keeps_result_witness:
  "apiKey (projectData widget) \<noteq> [] \<and> name (projectData widget) \<noteq> []
   \<and> description (projectData widget) \<noteq> []
   \<and> \<not> ok \<lparr>status = 401, json = Some (JObj [])\<rparr>
   \<and> generatedReadme (generateReadme (SetItemReturns (Resolved \<lparr>status = 401, json = Some (JObj [])\<rparr>))
        (widget\<lparr>generatedReadme := JStr ''# Old''\<rparr>)) = JStr ''# Old''
   \<and> last (trace (generateReadme (SetItemReturns (Resolved \<lparr>status = 401, json = Some (JObj [])\<rparr>))
        (widget\<lparr>generatedReadme := JStr ''# Old''\<rparr>))) = generation_failed
   \<and> generatedReadme (generateReadme (SetItemReturns Rejected) (widget\<lparr>generatedReadme := JStr ''# Old''\<rparr>))
        = JStr ''# Old''"
  using generate_failure_keeps_result
          [of "widget\<lparr>generatedReadme := JStr ''# Old''\<rparr>" "Resolved \<lparr>status = 401, json = Some (JObj [])\<rparr>"]
        generate_failure_keeps_result
          [of "widget\<lparr>generatedReadme := JStr ''# Old''\<rparr>" Rejected]
  by (auto simp add: widget_def initial_def new_events_def ok_def)

subsection \<open>The generating flag\<close>

text \<open>
  C4. The claim is what the \<open>finally\<close> clause is there for, and the handler misses it
  on one path. \<open>setIsGenerating(true)\<close> and \<open>localStorage.setItem\<close> stand before the
  \<open>try\<close> block: in every state past the guards, if \<open>setItem\<close> throws, the invocation
  ends with the generating flag set, having shown no toast and issued no request, and
  the Generate button is disabled; no later action of the user clears the flag. If
  \<open>setItem\<close> returns, the invocation ends with the flag cleared whatever the endpoint
  answers.
\<close>

theorem generate_flag_left_set:
  assumes "apiKey (projectData s) \<noteq> []" "name (projectData s) \<noteq> []"
    and "description (projectData s) \<noteq> []"
  shows "isGenerating (generateReadme SetItemThrows s)
       \<and> generate_button_disabled (generateReadme SetItemThrows s)
       \<and> new_events s (generateReadme SetItemThrows s) =
           [SetItem ''groq-api-key'' (apiKey (projectData s)), Uncaught QuotaExceededError]
       \<and> localStorage (generateReadme SetItemThrows s) = localStorage s
       \<and> isGenerating (run acts (generateReadme SetItemThrows s))
       \<and> \<not> isGenerating (generateReadme (SetItemReturns fr) s)"
proof -
  note thrown = generateReadme_thrown [OF assms]
  have cleared: "\<not> isGenerating (generateReadme (SetItemReturns fr) s)"
  proof (cases "try_block fr")
    case (Inl error)
    from generateReadme_caught [OF assms Inl] show ?thesis by simp
  next
    case (Inr readme)
    from generateReadme_resolved [OF assms Inr] show ?thesis by simp
  qed
  from thrown have "isGenerating (generateReadme SetItemThrows s)"
    by simp
  then have "isGenerating (run acts (generateReadme SetItemThrows s))"
    by (rule flag_stays_set)
  with thrown cleared show ?thesis
    by (simp add: new_events_def generate_button_disabled_def)
qed

theorem generate_flag_left_set_witness:
  "run widget_session (initial Map.empty) = widget
   \<and> \<not> isGenerating widget
   \<and> isGenerating (generateReadme SetItemThrows widget)
   \<and> trace (generateReadme SetItemThrows widget) =
        [SetItem ''groq-api-key'' ''k1'', Uncaught QuotaExceededError]
   \<and> isGenerating (run [ClickGenerate (SetItemReturns Rejected), SelectTab PreviewTab]
        (generateReadme SetItemThrows widget))
   \<and> \<not> isGenerating (generateReadme (SetItemReturns Rejected) widget)"
  using generate_flag_left_set
          [where s = widget and fr = Rejected
             and acts = "[ClickGenerate (SetItemReturns Rejected), SelectTab PreviewTab]"]
    widget_reachable
  by (simp add: widget_def initial_def new_events_def)

subsection \<open>Reading the answer\<close>

lemma truthy_fallback: "truthy (JStr fallback)"
  by (simp add: fallback_def)

lemma truthy_nonempty: "truthy v \<Longrightarrow> v \<noteq> JStr [] \<and> v \<noteq> JUndefined \<and> v \<noteq> JNull"
  by auto

lemma extract_readme_array:
  "member data ''choices'' = Inr (JArr cs) \<Longrightarrow>
   extract_readme data =
     Inr (if truthy (first_choice_content cs) then first_choice_content cs else JStr fallback)"
  by (simp add: extract_readme_def first_choice_content_def split: list.splits)

lemma extract_readme_missing:
  "data = JNull \<or> member data ''choices'' = Inr JUndefined \<or> member data ''choices'' = Inr JNull \<Longrightarrow>
   extract_readme data = Inl TypeError"
  by (auto simp: extract_readme_def)

lemma index0_Inl: "index0 v = Inl e \<longleftrightarrow> e = TypeError \<and> (v = JUndefined \<or> v = JNull)"
  by (cases v) auto

lemma member_Inl: "member v k = Inl e \<longleftrightarrow> e = TypeError \<and> (v = JUndefined \<or> v = JNull)"
  by (cases v) auto

lemma extract_readme_Inl:
  "extract_readme data = Inl e \<longleftrightarrow>
     e = TypeError \<and> (data = JUndefined \<or> data = JNull
        \<or> member data ''choices'' = Inr JUndefined \<or> member data ''choices'' = Inr JNull)"
  by (auto simp: extract_readme_def Let_def member_Inl index0_Inl split: sum.splits)

lemma extract_readme_truthy: "extract_readme data = Inr v \<Longrightarrow> truthy v"
  by (auto simp: extract_readme_def Let_def fallback_def split: sum.splits if_splits)

text \<open>
  C6, as stated, fails on a success response whose body has no \<open>choices\<close>: the read
  \<open>data.choices[0]\<close> throws, the \<open>catch\<close> clause runs, the generated text stays what
  it was (neither a content nor the fallback), and the toast is "Generation Failed".
\<close>

theorem generate_success_counterexample:
  "apiKey (projectData widget) \<noteq> [] \<and> name (projectData widget) \<noteq> []
   \<and> description (projectData widget) \<noteq> []
   \<and> ok \<lparr>status = 200, json = Some (JObj [])\<rparr>
   \<and> generatedReadme (generateReadme (SetItemReturns (Resolved \<lparr>status = 200, json = Some (JObj [])\<rparr>)) widget)
        = JStr []
   \<and> generatedReadme (generateReadme (SetItemReturns (Resolved \<lparr>status = 200, json = Some (JObj [])\<rparr>)) widget)
        \<noteq> JStr fallback
   \<and> last (trace (generateReadme (SetItemReturns (Resolved \<lparr>status = 200, json = Some (JObj [])\<rparr>)) widget))
        = generation_failed
   \<and> readme_generated
        \<notin> set (trace (generateReadme (SetItemReturns (Resolved \<lparr>status = 200, json = Some (JObj [])\<rparr>)) widget))"
proof -
  have "try_block (Resolved \<lparr>status = 200, json = Some (JObj [])\<rparr>) = Inl TypeError"
    by (simp add: try_block_def ok_def extract_readme_def)
  from generateReadme_caught [of widget, OF _ _ _ this] show ?thesis
    by (simp add: widget_def initial_def ok_def fallback_def generation_failed_def
        readme_generated_def)
qed

text \<open>
  C6, amended. Past the guards, when the response has a status in 200..299 and its
  body parses to a value whose \<open>choices\<close> is an array, the stored text is the content
  of the first choice when that content is truthy, and the fixed fallback string
  'Failed to generate README' when it is absent or falsy (no first choice, no message,
  no content, \<open>null\<close>, the empty string). The stored value is never the empty string
  nor \<open>undefined\<close>; the handler shows the toast "README Generated!" (the ready
  outcome) and the generating flag ends cleared.
\<close>

theorem generate_success_stores_content:
  assumes "apiKey (projectData s) \<noteq> []" "name (projectData s) \<noteq> []"
    and "description (projectData s) \<noteq> []"
    and "ok r" and "json r = Some data" and "member data ''choices'' = Inr (JArr cs)"
  shows "generatedReadme (generateReadme (SetItemReturns (Resolved r)) s) =
           (if truthy (first_choice_content cs) then first_choice_content cs else JStr fallback)
       \<and> generatedReadme (generateReadme (SetItemReturns (Resolved r)) s) \<noteq> JStr []
       \<and> generatedReadme (generateReadme (SetItemReturns (Resolved r)) s) \<noteq> JUndefined
       \<and> new_events s (generateReadme (SetItemReturns (Resolved r)) s) =
             [SetItem ''groq-api-key'' (apiKey (projectData s)),
              Fetch (completion_request (projectData s)), readme_generated]
       \<and> \<not> isGenerating (generateReadme (SetItemReturns (Resolved r)) s)"
proof -
  let ?v = "if truthy (first_choice_content cs) then first_choice_content cs else JStr fallback"
  have "try_block (Resolved r) = Inr ?v"
    using assms(4-6) by (simp add: try_block_def extract_readme_array)
  from generateReadme_resolved [OF assms(1-3) this] have
    "generateReadme (SetItemReturns (Resolved r)) s =
       s\<lparr> generatedReadme := ?v, isGenerating := False,
          localStorage := (localStorage s)(''groq-api-key'' \<mapsto> apiKey (projectData s)),
          trace := trace s @ [SetItem ''groq-api-key'' (apiKey (projectData s)),
                              Fetch (completion_request (projectData s)), readme_generated] \<rparr>" .
  moreover have "truthy ?v" by (simp add: fallback_def)
  then have "?v \<noteq> JStr [] \<and> ?v \<noteq> JUndefined" using truthy_nonempty by blast
  ultimately show ?thesis by (simp add: new_events_def)
qed

theorem generate_success_stores_content_witness:
  "generatedReadme (generateReadme (SetItemReturns (completion (JStr ''# Widget''))) widget) = JStr ''# Widget''
   \<and> generatedReadme (generateReadme (SetItemReturns (completion (JStr []))) widget) = JStr ''Failed to generate README''
   \<and> generatedReadme (generateReadme (SetItemReturns (completion JUndefined)) widget) = JStr ''Failed to generate README''
   \<and> generatedReadme (generateReadme (SetItemReturns (Resolved \<lparr>status = 200, json = Some (JObj [(''choices'', JArr [])])\<rparr>)) widget)
        = JStr ''Failed to generate README''
   \<and> last (trace (generateReadme (SetItemReturns (completion (JStr ''# Widget''))) widget)) = readme_generated"
  using generate_success_stores_content [of widget "\<lparr>status = 200, json = Some (JObj [(''choices'',
                         JArr [JObj [(''message'', JObj [(''content'', JStr ''# Widget'')])]])])\<rparr>"
          "JObj [(''choices'', JArr [JObj [(''message'', JObj [(''content'', JStr ''# Widget'')])]])]"
          "[JObj [(''message'', JObj [(''content'', JStr ''# Widget'')])]]"]
     generate_success_stores_content [of widget "\<lparr>status = 200, json = Some (JObj [(''choices'',
                         JArr [JObj [(''message'', JObj [(''content'', JStr [])])]])])\<rparr>"
          "JObj [(''choices'', JArr [JObj [(''message'', JObj [(''content'', JStr [])])]])]"
          "[JObj [(''message'', JObj [(''content'', JStr [])])]]"]
     generate_success_stores_content [of widget "\<lparr>status = 200, json = Some (JObj [(''choices'',
                         JArr [JObj [(''message'', JObj [(''content'', JUndefined)])]])])\<rparr>"
          "JObj [(''choices'', JArr [JObj [(''message'', JObj [(''content'', JUndefined)])]])]"
          "[JObj [(''message'', JObj [(''content'', JUndefined)])]]"]
     generate_success_stores_content [of widget "\<lparr>status = 200, json = Some (JObj [(''choices'', JArr [])])\<rparr>"
          "JObj [(''choices'', JArr [])]" "[]"]
  by (simp add: widget_def initial_def completion_def ok_def first_choice_content_def fallback_def new_events_def)

text \<open>
  C10, as stated, fails on a body whose \<open>choices\<close> is there but is no array: a
  number, a boolean, a string or an object is indexed by \<open>choices[0]\<close> without an
  exception. With \<open>{"choices": 5}\<close> the body has no choices array, and the handler
  ends in the ready outcome with the fallback text.
\<close>

theorem generate_without_choices_counterexample:
  "member (JObj [(''choices'', JNum (Finite 5))]) ''choices'' = Inr (JNum (Finite 5))
   \<and> ok \<lparr>status = 200, json = Some (JObj [(''choices'', JNum (Finite 5))])\<rparr>
   \<and> last (trace (generateReadme (SetItemReturns
        (Resolved \<lparr>status = 200, json = Some (JObj [(''choices'', JNum (Finite 5))])\<rparr>)) widget))
        = readme_generated
   \<and> generation_failed \<notin> set (trace (generateReadme (SetItemReturns
        (Resolved \<lparr>status = 200, json = Some (JObj [(''choices'', JNum (Finite 5))])\<rparr>)) widget))
   \<and> generatedReadme (generateReadme (SetItemReturns
        (Resolved \<lparr>status = 200, json = Some (JObj [(''choices'', JNum (Finite 5))])\<rparr>)) widget)
        = JStr fallback"
proof -
  have "try_block (Resolved \<lparr>status = 200, json = Some (JObj [(''choices'', JNum (Finite 5))])\<rparr>)
          = Inr (JStr fallback)"
    by (simp add: try_block_def ok_def extract_readme_def)
  from generateReadme_resolved [of widget, OF _ _ _ this] show ?thesis
    by (simp add: widget_def initial_def ok_def generation_failed_def readme_generated_def)
qed

text \<open>
  C10, amended. Past the guards and the write of the key, with a response of status in
  200..299 whose body parses: the handler ends in the failed outcome exactly when the
  body has no \<open>choices\<close> value, that is, when the body is \<open>null\<close> or \<open>undefined\<close>, or its
  \<open>choices\<close> is missing or \<open>null\<close>; then a \<open>TypeError\<close> is logged, the toast is
  "Generation Failed" and the generated text is unchanged. With any other \<open>choices\<close>
  (an array, but also a number, a boolean, a string or an object) it ends in the ready
  outcome, and the stored text is the content of the first choice when that is
  truthy and the fallback exactly when it is absent or falsy. The generating flag ends
  cleared in every case.
\<close>

theorem generate_without_choices:
  assumes "apiKey (projectData s) \<noteq> []" "name (projectData s) \<noteq> []"
    and "description (projectData s) \<noteq> []"
    and "ok r" and "json r = Some data"
  shows "(generation_failed \<in> set (new_events s (generateReadme (SetItemReturns (Resolved r)) s))
            \<longleftrightarrow> data = JUndefined \<or> data = JNull
                \<or> member data ''choices'' = Inr JUndefined \<or> member data ''choices'' = Inr JNull)
       \<and> (readme_generated \<in> set (new_events s (generateReadme (SetItemReturns (Resolved r)) s))
            \<longleftrightarrow> \<not> (data = JUndefined \<or> data = JNull
                \<or> member data ''choices'' = Inr JUndefined \<or> member data ''choices'' = Inr JNull))
       \<and> (data = JUndefined \<or> data = JNull
            \<or> member data ''choices'' = Inr JUndefined \<or> member data ''choices'' = Inr JNull \<longrightarrow>
            new_events s (generateReadme (SetItemReturns (Resolved r)) s) =
              [SetItem ''groq-api-key'' (apiKey (projectData s)),
               Fetch (completion_request (projectData s)),
               ConsoleError TypeError, generation_failed]
          \<and> generatedReadme (generateReadme (SetItemReturns (Resolved r)) s) = generatedReadme s)
       \<and> (\<forall>choices choice. member data ''choices'' = Inr choices \<and> index0 choices = Inr choice \<longrightarrow>
            new_events s (generateReadme (SetItemReturns (Resolved r)) s) =
              [SetItem ''groq-api-key'' (apiKey (projectData s)),
               Fetch (completion_request (projectData s)), readme_generated]
          \<and> generatedReadme (generateReadme (SetItemReturns (Resolved r)) s) =
              (if truthy (opt_member (opt_member choice ''message'') ''content'')
               then opt_member (opt_member choice ''message'') ''content''
               else JStr fallback))
       \<and> (\<forall>cs. member data ''choices'' = Inr (JArr cs) \<longrightarrow>
            generatedReadme (generateReadme (SetItemReturns (Resolved r)) s) =
              (if truthy (first_choice_content cs) then first_choice_content cs
               else JStr fallback))
       \<and> \<not> isGenerating (generateReadme (SetItemReturns (Resolved r)) s)"
proof (cases "extract_readme data")
  case (Inl e)
  then have missing: "data = JUndefined \<or> data = JNull
      \<or> member data ''choices'' = Inr JUndefined \<or> member data ''choices'' = Inr JNull"
    and e: "e = TypeError"
    by (simp_all add: extract_readme_Inl)
  from Inl e assms(4,5) have "try_block (Resolved r) = Inl TypeError"
    by (simp add: try_block_def)
  note failed = generateReadme_caught [OF assms(1-3) this]
  from missing have no_choice:
    "\<not> (member data ''choices'' = Inr choices \<and> index0 choices = Inr choice)" for choices choice
    by (auto simp: member_Inl)
  from missing have no_array: "member data ''choices'' \<noteq> Inr (JArr cs)" for cs
    by (auto simp: member_Inl)
  from failed missing no_choice no_array show ?thesis
    by (simp add: new_events_def generation_failed_def readme_generated_def)
next
  case (Inr v)
  then have present: "\<not> (data = JUndefined \<or> data = JNull
      \<or> member data ''choices'' = Inr JUndefined \<or> member data ''choices'' = Inr JNull)"
    using extract_readme_Inl [of data TypeError] by auto
  from Inr assms(4,5) have "try_block (Resolved r) = Inr v"
    by (simp add: try_block_def)
  note ready = generateReadme_resolved [OF assms(1-3) this]
  have by_choice: "v = (if truthy (opt_member (opt_member choice ''message'') ''content'')
               then opt_member (opt_member choice ''message'') ''content''
               else JStr fallback)"
    if "member data ''choices'' = Inr choices \<and> index0 choices = Inr choice" for choices choice
    using that Inr by (simp add: extract_readme_def Let_def)
  have by_array: "v = (if truthy (first_choice_content cs) then first_choice_content cs
               else JStr fallback)"
    if "member data ''choices'' = Inr (JArr cs)" for cs
    using that Inr by (simp add: extract_readme_array)
  let ?g = "generateReadme (SetItemReturns (Resolved r)) s"
  from ready have ev: "new_events s ?g =
              [SetItem ''groq-api-key'' (apiKey (projectData s)),
               Fetch (completion_request (projectData s)), readme_generated]"
    and stored: "generatedReadme ?g = v" and flag: "\<not> isGenerating ?g"
    by (simp_all add: new_events_def)
  from ev have no_failure: "generation_failed \<notin> set (new_events s ?g)"
    by (simp add: generation_failed_def readme_generated_def)
  from ev have success: "readme_generated \<in> set (new_events s ?g)"
    by simp
  have choice_text: "\<forall>choices choice.
      member data ''choices'' = Inr choices \<and> index0 choices = Inr choice \<longrightarrow>
        new_events s ?g =
              [SetItem ''groq-api-key'' (apiKey (projectData s)),
               Fetch (completion_request (projectData s)), readme_generated]
          \<and> generatedReadme ?g =
              (if truthy (opt_member (opt_member choice ''message'') ''content'')
               then opt_member (opt_member choice ''message'') ''content''
               else JStr fallback)"
    using ev stored by_choice by blast
  have array_text: "\<forall>cs. member data ''choices'' = Inr (JArr cs) \<longrightarrow>
            generatedReadme ?g =
              (if truthy (first_choice_content cs) then first_choice_content cs
               else JStr fallback)"
    using stored by_array by blast
  from present no_failure success choice_text array_text flag show ?thesis
    by blast
qed

theorem generate_without_choices_witness:
  "last (trace (generateReadme (SetItemReturns (Resolved \<lparr>status = 200, json = Some (JObj [(''id'', JStr ''x'')])\<rparr>)) widget))
     = generation_failed
   \<and> generatedReadme (generateReadme (SetItemReturns (Resolved \<lparr>status = 200, json = Some (JObj [(''id'', JStr ''x'')])\<rparr>)) widget)
     = JStr []
   \<and> \<not> isGenerating (generateReadme (SetItemReturns (Resolved \<lparr>status = 200, json = Some (JObj [(''id'', JStr ''x'')])\<rparr>)) widget)
   \<and> last (trace (generateReadme (SetItemReturns (Resolved \<lparr>status = 200, json = Some (JObj [(''choices'', JArr [JObj []])])\<rparr>)) widget))
     = readme_generated
   \<and> generatedReadme (generateReadme (SetItemReturns (Resolved \<lparr>status = 200, json = Some (JObj [(''choices'', JArr [JObj []])])\<rparr>)) widget)
     = JStr ''Failed to generate README''
   \<and> \<not> isGenerating (generateReadme (SetItemReturns (Resolved \<lparr>status = 200, json = Some (JObj [(''choices'', JArr [JObj []])])\<rparr>)) widget)
   \<and> generatedReadme (generateReadme (SetItemReturns (completion (JStr ''# Widget''))) widget)
     = JStr ''# Widget''"
  using generate_without_choices [of widget "\<lparr>status = 200, json = Some (JObj [(''id'', JStr ''x'')])\<rparr>"
          "JObj [(''id'', JStr ''x'')]"]
        generate_without_choices [of widget "\<lparr>status = 200, json = Some (JObj [(''choices'', JArr [JObj []])])\<rparr>"
          "JObj [(''choices'', JArr [JObj []])]"]
        generate_without_choices [of widget "\<lparr>status = 200, json = Some (JObj [(''choices'',
                         JArr [JObj [(''message'', JObj [(''content'', JStr ''# Widget'')])]])])\<rparr>"
          "JObj [(''choices'', JArr [JObj [(''message'', JObj [(''content'', JStr ''# Widget'')])]])]"]
  by (simp add: widget_def initial_def ok_def completion_def first_choice_content_def fallback_def
      new_events_def generation_failed_def readme_generated_def)

subsection \<open>The lists\<close>

lemma trim_split:
  "dropWhile is_white_space s =
     trim s @ rev (takeWhile is_white_space (rev (dropWhile is_white_space s)))"
proof -
  let ?r = "rev (dropWhile is_white_space s)"
  have "rev (dropWhile is_white_space ?r) @ rev (takeWhile is_white_space ?r) =
          rev (takeWhile is_white_space ?r @ dropWhile is_white_space ?r)"
    by (simp only: rev_append)
  also have "\<dots> = rev ?r"
    by (simp only: takeWhile_dropWhile_id)
  also have "\<dots> = dropWhile is_white_space s"
    by (simp only: rev_rev_ident)
  finally show ?thesis
    by (simp only: trim_def)
qed

lemma trim_decomposition:
  "\<exists>pre post. s = pre @ trim s @ post
      \<and> (\<forall>c \<in> set pre. is_white_space c) \<and> (\<forall>c \<in> set post. is_white_space c)"
proof -
  let ?pre = "takeWhile is_white_space s"
  let ?post = "rev (takeWhile is_white_space (rev (dropWhile is_white_space s)))"
  have "s = ?pre @ dropWhile is_white_space s"
    by simp
  with trim_split [of s] have "s = ?pre @ trim s @ ?post"
    by simp
  moreover have "\<forall>c \<in> set ?pre. is_white_space c"
    by (auto dest: set_takeWhileD)
  moreover have "\<forall>c \<in> set ?post. is_white_space c"
    by (auto dest: set_takeWhileD)
  ultimately show ?thesis by blast
qed

lemma trim_Nil: "dropWhile is_white_space s = [] \<Longrightarrow> trim s = []"
  by (simp only: trim_def rev.simps dropWhile.simps)

lemma trim_ends:
  assumes "trim s \<noteq> []"
  shows "\<not> is_white_space (hd (trim s)) \<and> \<not> is_white_space (last (trim s))"
proof -
  let ?rest = "dropWhile is_white_space s"
  let ?tail = "dropWhile is_white_space (rev ?rest)"
  from assms have tail: "?tail \<noteq> []" by (simp add: trim_def)
  then have "\<not> is_white_space (hd ?tail)" by (rule hd_dropWhile)
  then have l: "\<not> is_white_space (last (trim s))"
    using tail by (simp add: trim_def last_rev)
  from assms trim_Nil [of s] have rest: "?rest \<noteq> []" by blast
  then have h: "\<not> is_white_space (hd ?rest)" by (rule hd_dropWhile)
  from assms trim_split [of s] have "hd ?rest = hd (trim s)"
    by (metis hd_append2)
  with h l show ?thesis by simp
qed

lemma trim_empty_iff: "trim s = [] \<longleftrightarrow> (\<forall>c \<in> set s. is_white_space c)"
proof
  assume empty: "trim s = []"
  have "dropWhile is_white_space s = []"
  proof (rule ccontr)
    assume rest: "dropWhile is_white_space s \<noteq> []"
    then have "\<not> is_white_space (hd (dropWhile is_white_space s))" by (rule hd_dropWhile)
    moreover from empty have "\<forall>c \<in> set (dropWhile is_white_space s). is_white_space c"
      by (simp add: trim_def dropWhile_eq_Nil_conv)
    ultimately show False using rest hd_in_set by blast
  qed
  then show "\<forall>c \<in> set s. is_white_space c"
    by (simp only: dropWhile_eq_Nil_conv)
next
  assume "\<forall>c \<in> set s. is_white_space c"
  then have "dropWhile is_white_space s = []" by (simp only: dropWhile_eq_Nil_conv)
  then show "trim s = []" by (rule trim_Nil)
qed

text \<open>
  C7. \<open>addTechStack\<close> and \<open>addFeature\<close> work on the trimmed staging field. If the
  trimmed token is empty or is an element of the respective list, the state is
  unchanged (the list and the staging field with it). Otherwise the trimmed token is
  appended at the end of that list, every element that was there keeps its position,
  the staging field becomes empty and nothing else changes.
\<close>

theorem add_entry:
  "(trim (currentTech s) = [] \<or> trim (currentTech s) \<in> set (techStack (projectData s))
      \<longrightarrow> addTechStack s = s)
   \<and> (trim (currentTech s) \<noteq> [] \<and> trim (currentTech s) \<notin> set (techStack (projectData s))
      \<longrightarrow> techStack (projectData (addTechStack s)) = techStack (projectData s) @ [trim (currentTech s)]
        \<and> (\<forall>i < length (techStack (projectData s)).
              techStack (projectData (addTechStack s)) ! i = techStack (projectData s) ! i)
        \<and> currentTech (addTechStack s) = []
        \<and> addTechStack s =
            s\<lparr> projectData := (projectData s)
                  \<lparr> techStack := techStack (projectData s) @ [trim (currentTech s)] \<rparr>,
               currentTech := [] \<rparr>)
   \<and> (trim (currentFeature s) = [] \<or> trim (currentFeature s) \<in> set (features (projectData s))
      \<longrightarrow> addFeature s = s)
   \<and> (trim (currentFeature s) \<noteq> [] \<and> trim (currentFeature s) \<notin> set (features (projectData s))
      \<longrightarrow> features (projectData (addFeature s)) = features (projectData s) @ [trim (currentFeature s)]
        \<and> (\<forall>i < length (features (projectData s)).
              features (projectData (addFeature s)) ! i = features (projectData s) ! i)
        \<and> currentFeature (addFeature s) = []
        \<and> addFeature s =
            s\<lparr> projectData := (projectData s)
                  \<lparr> features := features (projectData s) @ [trim (currentFeature s)] \<rparr>,
               currentFeature := [] \<rparr>)"
proof -
  have tech_noop: "addTechStack s = s"
    if "trim (currentTech s) = [] \<or> trim (currentTech s) \<in> set (techStack (projectData s))"
    using that by (auto simp: addTechStack_def)
  have feature_noop: "addFeature s = s"
    if "trim (currentFeature s) = [] \<or> trim (currentFeature s) \<in> set (features (projectData s))"
    using that by (auto simp: addFeature_def)
  have tech_add: "addTechStack s =
            s\<lparr> projectData := (projectData s)
                  \<lparr> techStack := techStack (projectData s) @ [trim (currentTech s)] \<rparr>,
               currentTech := [] \<rparr>"
    if "trim (currentTech s) \<noteq> [] \<and> trim (currentTech s) \<notin> set (techStack (projectData s))"
    using that by (simp add: addTechStack_def)
  have feature_add: "addFeature s =
            s\<lparr> projectData := (projectData s)
                  \<lparr> features := features (projectData s) @ [trim (currentFeature s)] \<rparr>,
               currentFeature := [] \<rparr>"
    if "trim (currentFeature s) \<noteq> [] \<and> trim (currentFeature s) \<notin> set (features (projectData s))"
    using that by (simp add: addFeature_def)
  show ?thesis
    using tech_noop feature_noop tech_add feature_add
    by (simp add: nth_append)
qed

theorem add_entry_witness:
  "techStack (projectData (addTechStack (widget\<lparr>currentTech := ''  Rust ''\<rparr>))) = [''Go'', ''Rust'']
   \<and> currentTech (addTechStack (widget\<lparr>currentTech := ''  Rust ''\<rparr>)) = []
   \<and> addTechStack (widget\<lparr>currentTech := '' Go''\<rparr>) = widget\<lparr>currentTech := '' Go''\<rparr>
   \<and> addTechStack (widget\<lparr>currentTech := ''   ''\<rparr>) = widget\<lparr>currentTech := ''   ''\<rparr>
   \<and> features (projectData (addFeature (widget\<lparr>currentFeature := ''Small''\<rparr>))) = [''Fast'', ''Small'']
   \<and> addFeature (widget\<lparr>currentFeature := ''Fast ''\<rparr>) = widget\<lparr>currentFeature := ''Fast ''\<rparr>"
  using add_entry [of "widget\<lparr>currentTech := ''  Rust ''\<rparr>"]
    add_entry [of "widget\<lparr>currentTech := '' Go''\<rparr>"]
    add_entry [of "widget\<lparr>currentTech := ''   ''\<rparr>"]
    add_entry [of "widget\<lparr>currentFeature := ''Small''\<rparr>"]
    add_entry [of "widget\<lparr>currentFeature := ''Fast ''\<rparr>"]
  by (simp add: widget_def initial_def trim_def is_white_space_def)


subsection \<open>What every session keeps\<close>

lemma filter_absent: "t \<notin> set xs \<Longrightarrow> filter (\<lambda>y. y \<noteq> t) xs = xs"
  by (induction xs) auto

lemma filter_distinct_remove1: "distinct xs \<Longrightarrow> filter (\<lambda>y. y \<noteq> t) xs = remove1 t xs"
  by (induction xs) (auto simp: filter_absent)

lemma remove1_first:
  "t \<in> set xs \<Longrightarrow> \<exists>pre post. xs = pre @ t # post \<and> t \<notin> set pre \<and> remove1 t xs = pre @ post"
proof -
  assume "t \<in> set xs"
  then obtain pre post where "xs = pre @ t # post" "t \<notin> set pre"
    by (auto dest: split_list_first)
  then show ?thesis
    by (auto simp: remove1_append)
qed

lemma entries_ok_add:
  "entries_ok (techStack (projectData s)) \<Longrightarrow> entries_ok (techStack (projectData (addTechStack s)))"
  "entries_ok (features (projectData s)) \<Longrightarrow> entries_ok (features (projectData (addFeature s)))"
  by (auto simp: entries_ok_def addTechStack_def addFeature_def)

lemma entries_ok_remove:
  "entries_ok (techStack (projectData s)) \<Longrightarrow> entries_ok (techStack (projectData (removeTechStack t s)))"
  "entries_ok (features (projectData s)) \<Longrightarrow> entries_ok (features (projectData (removeFeature t s)))"
  by (auto simp: entries_ok_def removeTechStack_def removeFeature_def)

lemma page_ok_initial: "page_ok (initial store)"
  by (simp add: page_ok_def entries_ok_def initial_def)

lemma page_ok_generate: "page_ok s \<Longrightarrow> page_ok (generateReadme env s)"
proof -
  assume ok: "page_ok s"
  obtain es where "trace (generateReadme env s) = trace s @ es" "\<not> list_ex is_download es"
    "generatedReadme (generateReadme env s) = generatedReadme s \<or> readme_generated \<in> set es"
    using generateReadme_effect by blast
  with ok show ?thesis
    by (auto simp: page_ok_def)
qed

lemma page_ok_export:
  assumes "page_ok s" and "export_buttons_rendered s"
  shows "page_ok (copyToClipboard s)" and "page_ok (downloadReadme s)"
proof -
  from assms(2) have "generatedReadme s \<noteq> JStr []"
    by (auto simp: export_buttons_rendered_def)
  with assms(1) have "readme_generated \<in> set (trace s)"
    by (auto simp: page_ok_def)
  with assms(1) show "page_ok (copyToClipboard s)" and "page_ok (downloadReadme s)"
    by (simp_all add: page_ok_def copyToClipboard_def downloadReadme_def)
qed

lemma page_ok_click: "page_ok s \<Longrightarrow> page_ok (click a s)"
proof (cases a)
  case (ClickGenerate env)
  assume "page_ok s"
  with ClickGenerate show ?thesis
    by (simp add: click_def page_ok_generate)
next
  case ClickCopy
  assume "page_ok s"
  with ClickCopy show ?thesis
    by (simp add: click_def page_ok_export)
next
  case ClickDownload
  assume "page_ok s"
  with ClickDownload show ?thesis
    by (simp add: click_def page_ok_export)
qed (simp_all add: click_def page_ok_def entries_ok_add entries_ok_remove)

lemma page_ok_run: "page_ok s \<Longrightarrow> page_ok (run acts s)"
  by (induction acts arbitrary: s) (simp_all add: page_ok_click)

lemma session_ok: "page_ok (run acts (initial store))"
  by (rule page_ok_run) (rule page_ok_initial)

text \<open>
  C8. In every state of a session, for every token, \<open>removeTechStack\<close> and
  \<open>removeFeature\<close> remove the first exact match of the token from the respective list:
  the list was \<open>pre @ token # post\<close> with no match in \<open>pre\<close>, and becomes
  \<open>pre @ post\<close>, so all other elements keep their relative order. When the token is
  absent the state is unchanged. (The handlers filter the list; on the lists a session
  can hold, which have no entry twice, that is the removal of the first match.)
\<close>

theorem remove_entry:
  assumes "s = run acts (initial store)"
  shows "techStack (projectData (removeTechStack tech s)) = remove1 tech (techStack (projectData s))
       \<and> subseq (techStack (projectData (removeTechStack tech s))) (techStack (projectData s))
       \<and> (tech \<in> set (techStack (projectData s)) \<longrightarrow>
            (\<exists>pre post. techStack (projectData s) = pre @ tech # post \<and> tech \<notin> set pre
                \<and> techStack (projectData (removeTechStack tech s)) = pre @ post))
       \<and> (tech \<notin> set (techStack (projectData s)) \<longrightarrow> removeTechStack tech s = s)
       \<and> removeTechStack tech s =
            s\<lparr>projectData := (projectData s)\<lparr>techStack := remove1 tech (techStack (projectData s))\<rparr>\<rparr>
       \<and> features (projectData (removeFeature feature s)) = remove1 feature (features (projectData s))
       \<and> subseq (features (projectData (removeFeature feature s))) (features (projectData s))
       \<and> (feature \<in> set (features (projectData s)) \<longrightarrow>
            (\<exists>pre post. features (projectData s) = pre @ feature # post \<and> feature \<notin> set pre
                \<and> features (projectData (removeFeature feature s)) = pre @ post))
       \<and> (feature \<notin> set (features (projectData s)) \<longrightarrow> removeFeature feature s = s)
       \<and> removeFeature feature s =
            s\<lparr>projectData := (projectData s)\<lparr>features := remove1 feature (features (projectData s))\<rparr>\<rparr>"
proof -
  from assms have "page_ok s"
    by (simp add: session_ok)
  then have tech: "distinct (techStack (projectData s))"
    and feature: "distinct (features (projectData s))"
    by (simp_all add: page_ok_def entries_ok_def)
  have t: "techStack (projectData (removeTechStack tech s)) = remove1 tech (techStack (projectData s))"
    using tech by (simp add: removeTechStack_def filter_distinct_remove1)
  have f: "features (projectData (removeFeature feature s)) = remove1 feature (features (projectData s))"
    using feature by (simp add: removeFeature_def filter_distinct_remove1)
  have ts: "removeTechStack tech s =
            s\<lparr>projectData := (projectData s)\<lparr>techStack := remove1 tech (techStack (projectData s))\<rparr>\<rparr>"
    using tech by (simp add: removeTechStack_def filter_distinct_remove1)
  have fs: "removeFeature feature s =
            s\<lparr>projectData := (projectData s)\<lparr>features := remove1 feature (features (projectData s))\<rparr>\<rparr>"
    using feature by (simp add: removeFeature_def filter_distinct_remove1)
  have tsub: "subseq (techStack (projectData (removeTechStack tech s))) (techStack (projectData s))"
    by (simp add: removeTechStack_def)
  have fsub: "subseq (features (projectData (removeFeature feature s))) (features (projectData s))"
    by (simp add: removeFeature_def)
  have tabs: "removeTechStack tech s = s" if "tech \<notin> set (techStack (projectData s))"
    using that by (simp add: removeTechStack_def filter_absent)
  have fabs: "removeFeature feature s = s" if "feature \<notin> set (features (projectData s))"
    using that by (simp add: removeFeature_def filter_absent)
  have tfirst: "\<exists>pre post. techStack (projectData s) = pre @ tech # post \<and> tech \<notin> set pre
                \<and> techStack (projectData (removeTechStack tech s)) = pre @ post"
    if "tech \<in> set (techStack (projectData s))"
    using remove1_first [OF that] t by simp
  have ffirst: "\<exists>pre post. features (projectData s) = pre @ feature # post \<and> feature \<notin> set pre
                \<and> features (projectData (removeFeature feature s)) = pre @ post"
    if "feature \<in> set (features (projectData s))"
    using remove1_first [OF that] f by simp
  from t f tsub fsub tabs fabs tfirst ffirst show ?thesis
    using ts fs by blast
qed

theorem remove_entry_witness:
  "techStack (projectData (run (widget_session @ [TypeTech ''Rust'', ClickAddTech, TypeTech ''Zig'',
        ClickAddTech]) (initial Map.empty))) = [''Go'', ''Rust'', ''Zig'']
   \<and> techStack (projectData (removeTechStack ''Rust''
        (run (widget_session @ [TypeTech ''Rust'', ClickAddTech, TypeTech ''Zig'', ClickAddTech])
           (initial Map.empty)))) = [''Go'', ''Zig'']
   \<and> features (projectData (removeFeature ''Fast''
        (run (widget_session @ [TypeTech ''Rust'', ClickAddTech, TypeTech ''Zig'', ClickAddTech])
           (initial Map.empty)))) = []
   \<and> removeTechStack ''C'' widget = widget
   \<and> removeFeature ''Slow'' widget = widget"
  using remove_entry
          [where acts = "widget_session @ [TypeTech ''Rust'', ClickAddTech, TypeTech ''Zig'', ClickAddTech]"
             and store = Map.empty and tech = "''Rust''" and feature = "''Fast''", OF refl]
    remove_entry [where acts = widget_session and store = Map.empty and tech = "''C''"
             and feature = "''Slow''", OF refl]
  unfolding after_widget widget_reachable
  by (simp add: widget_def initial_def click_def render_throws_def addTechStack_def
      trim_def is_white_space_def)

subsection \<open>Export\<close>

text \<open>
  C9. The download handler is reached through the Download button and nowhere else,
  and the button stands in the branch of the preview pane taken when the generated
  text is truthy. So in every state whose generated text is empty the button is not
  rendered and a click on Download is a no-op: the state is unchanged and no download
  is produced. In a session in which no generation has succeeded the generated text is
  empty, so the same holds there, and no download has been produced so far.
\<close>

theorem export_before_generation:
  "(generatedReadme s = JStr [] \<longrightarrow>
       \<not> export_buttons_rendered s \<and> click ClickDownload s = s
     \<and> \<not> list_ex is_download (new_events s (click ClickDownload s)))
   \<and> (readme_generated \<notin> set (trace (run acts (initial store))) \<longrightarrow>
         generatedReadme (run acts (initial store)) = JStr []
       \<and> click ClickDownload (run acts (initial store)) = run acts (initial store)
       \<and> \<not> list_ex is_download (trace (run acts (initial store))))"
proof -
  have closed: "\<not> export_buttons_rendered s \<and> click ClickDownload s = s
     \<and> \<not> list_ex is_download (new_events s (click ClickDownload s))"
    if "generatedReadme s = JStr []" for s
    using that by (simp add: export_buttons_rendered_def click_def new_events_def)
  have "page_ok (run acts (initial store))"
    by (rule session_ok)
  then have "generatedReadme (run acts (initial store)) = JStr []
       \<and> \<not> list_ex is_download (trace (run acts (initial store)))"
    if "readme_generated \<notin> set (trace (run acts (initial store)))"
    using that by (simp add: page_ok_def)
  with closed show ?thesis
    by blast
qed

theorem export_before_generation_witness:
  "generatedReadme (initial Map.empty) = JStr []
   \<and> click ClickDownload ((initial Map.empty)\<lparr>activeTab := PreviewTab\<rparr>)
       = (initial Map.empty)\<lparr>activeTab := PreviewTab\<rparr>
   \<and> readme_generated \<notin> set (trace (run (widget_session @
        [ClickGenerate (SetItemReturns Rejected), SelectTab PreviewTab, ClickDownload])
        (initial Map.empty)))
   \<and> \<not> list_ex is_download (trace (run (widget_session @
        [ClickGenerate (SetItemReturns Rejected), SelectTab PreviewTab, ClickDownload])
        (initial Map.empty)))
   \<and> list_ex is_download (trace (run (widget_session @
        [ClickGenerate (SetItemReturns (completion (JStr ''# Widget''))), SelectTab PreviewTab,
         ClickDownload])
        (initial Map.empty)))"
proof -
  have failed: "readme_generated \<notin> set (trace (run (widget_session @
        [ClickGenerate (SetItemReturns Rejected), SelectTab PreviewTab, ClickDownload])
        (initial Map.empty)))"
    unfolding after_widget
    by (simp add: widget_def initial_def click_def render_throws_def
        export_buttons_rendered_def generate_button_disabled_def generateReadme_def try_block_def
        Let_def emit_def readme_generated_def generation_failed_def)
  have succeeded: "list_ex is_download (trace (run (widget_session @
        [ClickGenerate (SetItemReturns (completion (JStr ''# Widget''))), SelectTab PreviewTab,
         ClickDownload])
        (initial Map.empty)))"
    unfolding after_widget
    by (simp add: widget_def initial_def click_def render_throws_def
        export_buttons_rendered_def generate_button_disabled_def generateReadme_def try_block_def
        extract_readme_def completion_def ok_def Let_def emit_def downloadReadme_def)
  have empty: "generatedReadme ((initial Map.empty)\<lparr>activeTab := PreviewTab\<rparr>) = JStr []"
    by (simp add: initial_def)
  from export_before_generation [where s = "(initial Map.empty)\<lparr>activeTab := PreviewTab\<rparr>"
      and store = Map.empty
      and acts = "widget_session @
        [ClickGenerate (SetItemReturns Rejected), SelectTab PreviewTab, ClickDownload]"]
    failed empty
  have "click ClickDownload ((initial Map.empty)\<lparr>activeTab := PreviewTab\<rparr>)
       = (initial Map.empty)\<lparr>activeTab := PreviewTab\<rparr>"
    and "\<not> list_ex is_download (trace (run (widget_session @
        [ClickGenerate (SetItemReturns Rejected), SelectTab PreviewTab, ClickDownload])
        (initial Map.empty)))"
    by blast+
  with failed succeeded show ?thesis
    by (simp add: initial_def)
qed

end
